theory Spec2Isabelle
  imports Main "HOL-Library.Word"
begin

section \<open>The trackpad-detect stub for non-macOS platforms\<close>

text \<open>
  The embedded file is \<^verbatim>\<open>electron-trackpad-detect/src/stub.cc\<close>: four callbacks in an
  anonymous namespace, the initialiser \<^verbatim>\<open>Init\<close> that binds them to an exports object, and
  the registration \<^verbatim>\<open>NODE_API_MODULE(trackpad_detect, Init)\<close>. The namespace declares no
  variable, so the only state any of the code can reach is the JavaScript heap behind
  \<^verbatim>\<open>Napi::Env\<close>. That heap is modelled as an explicit store and threaded through every call.
\<close>

subsection \<open>JavaScript values and the heap behind \<^verbatim>\<open>Napi::Env\<close>\<close>

type_synonym addr = nat

text \<open>
  A \<^verbatim>\<open>Napi::Value\<close>. Primitives are immediate; a number is the bit pattern of its IEEE-754
  double, a string is its UTF-16 code units. Objects and functions are references into the
  heap.
\<close>

datatype napi_value =
    JsUndefined
  | JsNull
  | JsBoolean bool
  | JsNumber "64 word"
  | JsString "16 word list"
  | JsSymbol nat
  | JsBigInt int
  | JsObject addr

datatype napi_valuetype =
    napi_undefined
  | napi_null
  | napi_boolean
  | napi_number
  | napi_string
  | napi_symbol
  | napi_object
  | napi_function
  | napi_bigint

text \<open>The native functions of this translation unit that a function object can wrap.\<close>

datatype native_callback =
    StartMonitoring_cb
  | StopMonitoring_cb
  | IsTrackpadScroll_cb
  | IsMonitoring_cb

text \<open>
  What a function object runs when called: a native callback of this file, or JavaScript of
  the host, known here only by a number.
\<close>

datatype code = Native native_callback | Script nat

text \<open>
  A property slot. A data property has a value and the attribute \<^verbatim>\<open>writable\<close>; an accessor
  property has a getter and a setter, each a function object or \<^verbatim>\<open>undefined\<close>. The
  attributes \<^verbatim>\<open>enumerable\<close> and \<^verbatim>\<open>configurable\<close> are left out: neither reading nor
  assigning a property looks at them.
\<close>

datatype property =
    DataProperty napi_value bool
  | AccessorProperty napi_value napi_value

text \<open>
  An ordinary object reads and assigns its properties as ECMAScript's \<^verbatim>\<open>OrdinaryGet\<close> and
  \<^verbatim>\<open>OrdinarySet\<close> say. An exotic object (a \<^verbatim>\<open>Proxy\<close>, a module namespace object) has its own
  \<^verbatim>\<open>[[Get]]\<close> and \<^verbatim>\<open>[[Set]]\<close>, code of the host.
\<close>

datatype object_kind = Ordinary | Exotic nat nat

text \<open>
  A heap object: its own properties, whether properties can be added to it (\<^verbatim>\<open>false\<close> on a
  frozen, sealed or non-extensible object), its prototype, its kind, and the code it runs if
  it is a function. The prototype \<open>None\<close> stands for an object that inherits from nothing
  but the realm's initial \<^verbatim>\<open>Object.prototype\<close> or \<^verbatim>\<open>Function.prototype\<close>; those two objects,
  which have no property of a name this file uses, are not part of the heap modelled here.
  The own properties \<^verbatim>\<open>name\<close> and \<^verbatim>\<open>length\<close> of a function object are left out as well.
\<close>

record js_object =
  properties :: "string \<rightharpoonup> property"
  extensible :: bool
  prototype :: "addr option"
  kind :: object_kind
  callable :: "code option"

text \<open>The state behind a \<^verbatim>\<open>Napi::Env\<close>: the heap, an object's address being its index.\<close>

type_synonym napi_env = "js_object list"

text \<open>
  A pending JavaScript exception: a status N-API reports and the C++ wrapper throws, or a
  value thrown by JavaScript of the host.
\<close>

datatype js_error =
    napi_object_expected
  | napi_function_expected
  | napi_generic_failure
  | thrown napi_value

type_synonym 'a result = "js_error + 'a"

text \<open>
  \<^verbatim>\<open>Napi::CallbackInfo\<close>: the environment of the call (\<^verbatim>\<open>info.Env()\<close>), the receiver
  (\<^verbatim>\<open>info.This()\<close>) and the arguments (\<^verbatim>\<open>info[i]\<close>, \<^verbatim>\<open>info.Length()\<close>).
\<close>

record CallbackInfo =
  Env :: napi_env
  This :: napi_value
  Args :: "napi_value list"

text \<open>
  The JavaScript of the host is not part of this file. It is a parameter: what the code with
  a given number does when called, its result and the environment it leaves. Code that
  never returns has no place in it.
\<close>

type_synonym script = "nat \<Rightarrow> CallbackInfo \<Rightarrow> napi_value result \<times> napi_env"

subsection \<open>The N-API operations the callbacks use\<close>

text \<open>\<^verbatim>\<open>Napi::Boolean::New(env, b)\<close>: the boolean primitive; nothing is allocated.\<close>

definition Boolean_New :: "napi_env \<Rightarrow> bool \<Rightarrow> napi_value" where
  "Boolean_New env b = JsBoolean b"

text \<open>\<^verbatim>\<open>env.Undefined()\<close>.\<close>

definition Env_Undefined :: "napi_env \<Rightarrow> napi_value" where
  "Env_Undefined env = JsUndefined"

text \<open>\<^verbatim>\<open>value.Type()\<close>, that is \<^verbatim>\<open>napi_typeof\<close>.\<close>

fun napi_typeof :: "napi_env \<Rightarrow> napi_value \<Rightarrow> napi_valuetype" where
  "napi_typeof env JsUndefined = napi_undefined"
| "napi_typeof env JsNull = napi_null"
| "napi_typeof env (JsBoolean b) = napi_boolean"
| "napi_typeof env (JsNumber n) = napi_number"
| "napi_typeof env (JsString s) = napi_string"
| "napi_typeof env (JsSymbol n) = napi_symbol"
| "napi_typeof env (JsBigInt i) = napi_bigint"
| "napi_typeof env (JsObject a) =
     (if a < length env \<and> callable (env ! a) \<noteq> None then napi_function else napi_object)"

subsection \<open>The four callbacks\<close>

text \<open>
  Each callback returns its value and the environment it leaves behind. None of them writes
  through \<^verbatim>\<open>info.Env()\<close>, none reads \<^verbatim>\<open>info[i]\<close> or \<^verbatim>\<open>info.This()\<close>, and none throws.
\<close>

definition StartMonitoring :: "CallbackInfo \<Rightarrow> napi_value result \<times> napi_env" where
  "StartMonitoring info = (Inr (Boolean_New (Env info) False), Env info)"

definition StopMonitoring :: "CallbackInfo \<Rightarrow> napi_value result \<times> napi_env" where
  "StopMonitoring info = (Inr (Env_Undefined (Env info)), Env info)"

definition IsTrackpadScroll :: "CallbackInfo \<Rightarrow> napi_value result \<times> napi_env" where
  "IsTrackpadScroll info = (Inr (Boolean_New (Env info) False), Env info)"

definition IsMonitoring :: "CallbackInfo \<Rightarrow> napi_value result \<times> napi_env" where
  "IsMonitoring info = (Inr (Boolean_New (Env info) False), Env info)"

text \<open>Calling a function object made by \<^verbatim>\<open>Napi::Function::New\<close> runs the callback it wraps.\<close>

fun invoke :: "native_callback \<Rightarrow> CallbackInfo \<Rightarrow> napi_value result \<times> napi_env" where
  "invoke StartMonitoring_cb info = StartMonitoring info"
| "invoke StopMonitoring_cb info = StopMonitoring info"
| "invoke IsTrackpadScroll_cb info = IsTrackpadScroll info"
| "invoke IsMonitoring_cb info = IsMonitoring info"

subsection \<open>Call sequences\<close>

text \<open>
  A call names the operation, the receiver and the argument list. The host runs a sequence
  of calls one after the other, each in the environment the previous one left, and records
  every result.
\<close>

type_synonym call = "native_callback \<times> napi_value \<times> napi_value list"

fun run :: "napi_env \<Rightarrow> call list \<Rightarrow> napi_value result list \<times> napi_env" where
  "run env [] = ([], env)"
| "run env ((cb, this, args) # cs) =
     (let (r, env') = invoke cb \<lparr>Env = env, This = this, Args = args\<rparr>;
          (rs, env'') = run env' cs
      in (r # rs, env''))"

subsection \<open>Objects: allocation, calls, reading and assigning a property\<close>

text \<open>
  \<^verbatim>\<open>Napi::Function::New(env, cb)\<close>: allocates a new function object wrapping \<open>cb\<close> and
  returns its reference with the grown heap.
\<close>

definition Function_New :: "napi_env \<Rightarrow> native_callback \<Rightarrow> addr \<times> napi_env" where
  "Function_New env cb =
     (length env,
      env @ [\<lparr>properties = Map.empty, extensible = True, prototype = None, kind = Ordinary,
               callable = Some (Native cb)\<rparr>])"

text \<open>\<^verbatim>\<open>Napi::Object::New(env)\<close>: allocates a new, ordinary, extensible object without properties.\<close>

definition Object_New :: "napi_env \<Rightarrow> addr \<times> napi_env" where
  "Object_New env =
     (length env,
      env @ [\<lparr>properties = Map.empty, extensible = True, prototype = None, kind = Ordinary,
               callable = None\<rparr>])"

text \<open>
  \<^verbatim>\<open>f.Call(this, args)\<close>: a value that is no function object makes N-API report
  \<^verbatim>\<open>napi_function_expected\<close>.
\<close>

definition Function_Call ::
  "script \<Rightarrow> napi_env \<Rightarrow> napi_value \<Rightarrow> napi_value \<Rightarrow> napi_value list
     \<Rightarrow> napi_value result \<times> napi_env" where
  "Function_Call script env f this args =
     (case f of
        JsObject a \<Rightarrow>
          (if a < length env
           then (case callable (env ! a) of
                   Some (Native cb) \<Rightarrow> invoke cb \<lparr>Env = env, This = this, Args = args\<rparr>
                 | Some (Script n) \<Rightarrow> script n \<lparr>Env = env, This = this, Args = args\<rparr>
                 | None \<Rightarrow> (Inl napi_function_expected, env))
           else (Inl napi_function_expected, env))
      | _ \<Rightarrow> (Inl napi_function_expected, env))"

text \<open>
  Where a property name resolves on a prototype chain: nowhere, at an ordinary object that
  has it as an own property, or at an exotic object that is met first and answers by itself.
\<close>

datatype resolution =
    Absent
  | Found addr property
  | Answered nat nat
  | Unresolved

text \<open>
  The walk along the chain that \<^verbatim>\<open>OrdinaryGet\<close> and \<^verbatim>\<open>OrdinarySet\<close> share, starting at the
  object itself. A JavaScript prototype chain has no cycle and no dangling link, so in a
  heap of \<open>n\<close> objects it ends within \<open>n\<close> steps; a chain that does not is no JavaScript
  heap and is left \<open>Unresolved\<close>.
\<close>

fun lookup :: "nat \<Rightarrow> napi_env \<Rightarrow> addr option \<Rightarrow> string \<Rightarrow> resolution" where
  "lookup n env None key = Absent"
| "lookup 0 env (Some a) key = Unresolved"
| "lookup (Suc n) env (Some a) key =
     (if a < length env
      then (case kind (env ! a) of
              Exotic g s \<Rightarrow> Answered g s
            | Ordinary \<Rightarrow>
                (case properties (env ! a) key of
                   Some p \<Rightarrow> Found a p
                 | None \<Rightarrow> lookup n env (prototype (env ! a)) key))
      else Unresolved)"

text \<open>A property name as the string value the host's code receives.\<close>

definition key_value :: "string \<Rightarrow> napi_value" where
  "key_value key = JsString (map of_char key)"

text \<open>
  \<^verbatim>\<open>obj.Get(key)\<close>, that is \<^verbatim>\<open>napi_get_named_property\<close>: a data property reads as its value,
  an accessor property as what its getter returns, called on \<open>obj\<close>; a missing property
  reads as \<^verbatim>\<open>undefined\<close>.
\<close>

definition Object_Get ::
  "script \<Rightarrow> napi_env \<Rightarrow> addr \<Rightarrow> string \<Rightarrow> napi_value result \<times> napi_env" where
  "Object_Get script env obj key =
     (if obj < length env
      then (case lookup (length env) env (Some obj) key of
              Absent \<Rightarrow> (Inr JsUndefined, env)
            | Found owner (DataProperty v w) \<Rightarrow> (Inr v, env)
            | Found owner (AccessorProperty g s) \<Rightarrow>
                (if g = JsUndefined then (Inr JsUndefined, env)
                 else Function_Call script env g (JsObject obj) [])
            | Answered g s \<Rightarrow>
                script g \<lparr>Env = env, This = JsObject obj, Args = [key_value key]\<rparr>
            | Unresolved \<Rightarrow> (Inl napi_generic_failure, env))
      else (Inl napi_object_expected, env))"

text \<open>An assignment has no value: a result of the host's code is dropped, an exception kept.\<close>

definition completion :: "napi_value result \<times> napi_env \<Rightarrow> unit result \<times> napi_env" where
  "completion r =
     (case r of
        (Inl e, env) \<Rightarrow> (Inl e, env)
      | (Inr v, env) \<Rightarrow> (Inr (), env))"

text \<open>Writing an own data property of an object: the slot becomes a writable data property.\<close>

definition write_slot :: "napi_env \<Rightarrow> addr \<Rightarrow> string \<Rightarrow> napi_value \<Rightarrow> napi_env" where
  "write_slot env obj key v =
     env[obj := (env ! obj)\<lparr>properties := (properties (env ! obj))(key \<mapsto> DataProperty v True)\<rparr>]"

text \<open>
  \<^verbatim>\<open>obj.Set(key, value)\<close> on a \<^verbatim>\<open>Napi::Object\<close>, that is \<^verbatim>\<open>napi_set_named_property\<close>: the
  JavaScript assignment \<^verbatim>\<open>obj[key] = value\<close> outside strict mode.
  \<^item> The name resolves to a writable data property: of \<open>obj\<close> itself, its value is replaced;
    of a prototype, \<open>obj\<close> gets a new own property if it is extensible.
  \<^item> The name resolves nowhere: \<open>obj\<close> gets a new own property if it is extensible.
  \<^item> The name resolves to a read-only data property, to an accessor without setter, or \<open>obj\<close>
    is not extensible where a property would have to be added: nothing is written, and the
    call returns normally all the same.
  \<^item> The name resolves to an accessor with a setter, or an exotic object answers: the host's
    code runs on \<open>obj\<close>, and an exception it throws is thrown on by the C++ wrapper.
  \<^item> A handle that references no heap object makes N-API report \<^verbatim>\<open>napi_object_expected\<close>.
\<close>

definition Object_Set ::
  "script \<Rightarrow> addr \<Rightarrow> string \<Rightarrow> napi_value \<Rightarrow> napi_env \<Rightarrow> unit result \<times> napi_env" where
  "Object_Set script obj key v env =
     (if obj < length env
      then (case lookup (length env) env (Some obj) key of
              Absent \<Rightarrow>
                (if extensible (env ! obj) then (Inr (), write_slot env obj key v)
                 else (Inr (), env))
            | Found owner (DataProperty old w) \<Rightarrow>
                (if w \<and> (owner = obj \<or> extensible (env ! obj))
                 then (Inr (), write_slot env obj key v)
                 else (Inr (), env))
            | Found owner (AccessorProperty g s) \<Rightarrow>
                (if s = JsUndefined then (Inr (), env)
                 else completion (Function_Call script env s (JsObject obj) [v]))
            | Answered g s \<Rightarrow>
                completion
                  (script s \<lparr>Env = env, This = JsObject obj, Args = [key_value key, v]\<rparr>)
            | Unresolved \<Rightarrow> (Inl napi_generic_failure, env))
      else (Inl napi_object_expected, env))"

subsection \<open>Module initialisation\<close>

text \<open>
  Statements in sequence: a C++ exception thrown by one statement leaves the function, and
  the rest does not run.
\<close>

definition and_then ::
  "unit result \<times> napi_env \<Rightarrow> (napi_env \<Rightarrow> 'a result \<times> napi_env) \<Rightarrow> 'a result \<times> napi_env" where
  "and_then stmt rest =
     (case stmt of
        (Inl e, env) \<Rightarrow> (Inl e, env)
      | (Inr u, env) \<Rightarrow> rest env)"

text \<open>
  \<^verbatim>\<open>Init(env, exports)\<close>. In each statement the argument \<^verbatim>\<open>Napi::Function::New(env, cb)\<close>
  is evaluated before \<^verbatim>\<open>exports.Set\<close> runs; the last statement returns the handle it was
  given. The host's code is a parameter because \<^verbatim>\<open>exports.Set\<close> may run it.
\<close>

definition Init :: "script \<Rightarrow> napi_env \<Rightarrow> addr \<Rightarrow> addr result \<times> napi_env" where
  "Init script env exports =
     and_then (let (f, env') = Function_New env StartMonitoring_cb
               in Object_Set script exports ''startMonitoring'' (JsObject f) env') (\<lambda>env.
     and_then (let (f, env') = Function_New env StopMonitoring_cb
               in Object_Set script exports ''stopMonitoring'' (JsObject f) env') (\<lambda>env.
     and_then (let (f, env') = Function_New env IsTrackpadScroll_cb
               in Object_Set script exports ''isTrackpadScroll'' (JsObject f) env') (\<lambda>env.
     and_then (let (f, env') = Function_New env IsMonitoring_cb
               in Object_Set script exports ''isMonitoring'' (JsObject f) env') (\<lambda>env.
     (Inr exports, env)))))"

text \<open>
  \<^verbatim>\<open>NODE_API_MODULE(trackpad_detect, Init)\<close>: when the host loads the module it creates the
  module's exports object, passes it to \<^verbatim>\<open>Init\<close>, and takes the object \<^verbatim>\<open>Init\<close> returns as
  what the module exports.
\<close>

definition trackpad_detect :: "script \<Rightarrow> napi_env \<Rightarrow> addr result \<times> napi_env" where
  "trackpad_detect script env =
     (let (exports, env') = Object_New env in Init script env' exports)"

subsection \<open>The host's side of the interface\<close>

text \<open>The host's method call \<^verbatim>\<open>exports.name(args)\<close>: read the property, call it on \<open>exports\<close>.\<close>

definition call_export ::
  "script \<Rightarrow> napi_env \<Rightarrow> addr \<Rightarrow> string \<Rightarrow> napi_value list
     \<Rightarrow> napi_value result \<times> napi_env" where
  "call_export script env exports name args =
     (case Object_Get script env exports name of
        (Inl e, env') \<Rightarrow> (Inl e, env')
      | (Inr f, env') \<Rightarrow> Function_Call script env' f (JsObject exports) args)"

text \<open>
  The native callback an own data property of an object is bound to, if the property holds a
  function object made by \<^verbatim>\<open>Napi::Function::New\<close>.
\<close>

definition bound_callback :: "napi_env \<Rightarrow> addr \<Rightarrow> string \<Rightarrow> native_callback option" where
  "bound_callback env obj key =
     (if obj < length env
      then (case properties (env ! obj) key of
              Some (DataProperty (JsObject f) w) \<Rightarrow>
                (if f < length env
                 then (case callable (env ! f) of
                         Some (Native cb) \<Rightarrow> Some cb
                       | _ \<Rightarrow> None)
                 else None)
            | _ \<Rightarrow> None)
      else None)"

text \<open>
  An assignment to a name of an object takes effect when the name resolves, from the object
  along its prototype chain, to nothing with the object extensible, or to a writable data
  property that is the object's own or that an extensible object inherits. No exotic
  object and no accessor is met, so none of the host's code runs.
\<close>

definition assignable :: "napi_env \<Rightarrow> addr \<Rightarrow> string \<Rightarrow> bool" where
  "assignable env obj key =
     (obj < length env \<and>
      (case lookup (length env) env (Some obj) key of
         Absent \<Rightarrow> extensible (env ! obj)
       | Found owner (DataProperty old w) \<Rightarrow> w \<and> (owner = obj \<or> extensible (env ! obj))
       | Found owner (AccessorProperty g s) \<Rightarrow> False
       | Answered g s \<Rightarrow> False
       | Unresolved \<Rightarrow> False))"

text \<open>Host code for examples: it returns \<^verbatim>\<open>undefined\<close> and changes nothing.\<close>

definition idle :: script where
  "idle n info = (Inr JsUndefined, Env info)"

text \<open>Host code for examples: it throws the value \<^verbatim>\<open>null\<close>.\<close>

definition throwing :: script where
  "throwing n info = (Inl (thrown JsNull), Env info)"

subsection \<open>Exports objects for the examples\<close>


text \<open>An object whose property \<^verbatim>\<open>isMonitoring\<close> is the read-only value \<^verbatim>\<open>true\<close>.\<close>

definition read_only_exports :: napi_env where
  "read_only_exports =
     [\<lparr>properties = [''isMonitoring'' \<mapsto> DataProperty (JsBoolean True) False],
       extensible = True, prototype = None, kind = Ordinary, callable = None\<rparr>]"

text \<open>
  An object whose property \<^verbatim>\<open>stopMonitoring\<close> is an accessor; its setter is the function
  object at address 1, JavaScript of the host.
\<close>

definition setter_exports :: napi_env where
  "setter_exports =
     [\<lparr>properties = [''stopMonitoring'' \<mapsto> AccessorProperty JsUndefined (JsObject 1)],
       extensible = True, prototype = None, kind = Ordinary, callable = None\<rparr>,
      \<lparr>properties = Map.empty, extensible = True, prototype = None, kind = Ordinary,
       callable = Some (Script 0)\<rparr>]"


section \<open>Properties\<close>

subsection \<open>Calls and call sequences leave the environment as it was\<close>

lemmas cb_defs =
  StartMonitoring_def StopMonitoring_def IsTrackpadScroll_def IsMonitoring_def
  Boolean_New_def Env_Undefined_def

lemma invoke_value:
  "invoke cb info =
     (if cb = StopMonitoring_cb then Inr JsUndefined else Inr (JsBoolean False), Env info)"
  by (cases cb) (simp_all add: cb_defs)

lemma invoke_env: "snd (invoke cb info) = Env info"
  by (simp add: invoke_value)

lemma run_env: "snd (run env cs) = env"
proof (induction cs arbitrary: env)
  case Nil
  show ?case by simp
next
  case (Cons c cs)
  obtain cb this args where c: "c = (cb, this, args)"
    by (cases c) auto
  let ?info = "\<lparr>Env = env, This = this, Args = args\<rparr>"
  have "snd (invoke cb ?info) = env"
    using invoke_env [of cb ?info] by simp
  then show ?case
    using Cons.IH by (simp add: c split_beta)
qed

lemma run_append:
  "run env (cs @ ds) =
     (fst (run env cs) @ fst (run (snd (run env cs)) ds), snd (run (snd (run env cs)) ds))"
  by (induction cs arbitrary: env) (auto simp: split_beta)

lemma run_length: "length (fst (run env cs)) = length cs"
  by (induction cs arbitrary: env) (auto simp: split_beta)

lemma run_results:
  "fst (run env cs) =
     map (\<lambda>(cb, this, args). fst (invoke cb \<lparr>Env = env, This = this, Args = args\<rparr>)) cs"
proof (induction cs arbitrary: env)
  case Nil
  show ?case by simp
next
  case (Cons c cs)
  obtain cb this args where c: "c = (cb, this, args)"
    by (cases c) auto
  have "snd (invoke cb \<lparr>Env = env, This = this, Args = args\<rparr>) = env"
    using invoke_env [of cb "\<lparr>Env = env, This = this, Args = args\<rparr>"] by simp
  then show ?case
    using Cons.IH [of env] by (simp add: c split_beta)
qed

lemma run_then_call:
  "last (fst (run env (cs @ [(cb, this, args)]))) =
     fst (invoke cb \<lparr>Env = env, This = this, Args = args\<rparr>)"
  by (simp add: run_append run_env split_beta)

subsection \<open>The queries\<close>

text \<open>
  C1. After every sequence of calls to the four operations, started in any environment, a
  call of \<^verbatim>\<open>isMonitoring\<close> with any receiver and any argument list (the empty one included)
  returns the boolean \<^verbatim>\<open>false\<close>.
\<close>

theorem IsMonitoring_false:
  "last (fst (run env (cs @ [(IsMonitoring_cb, this, args)]))) = Inr (JsBoolean False)
   \<and> fst (IsMonitoring \<lparr>Env = snd (run env cs), This = this, Args = args\<rparr>)
       = Inr (JsBoolean False)
   \<and> fst (IsMonitoring \<lparr>Env = snd (run env cs), This = this, Args = []\<rparr>)
       = Inr (JsBoolean False)"
  by (simp add: run_then_call IsMonitoring_def Boolean_New_def)

text \<open>
  C2. After every sequence of calls to the four operations, a call of \<^verbatim>\<open>isTrackpadScroll\<close>
  with any receiver and any argument list returns the boolean \<^verbatim>\<open>false\<close>.
\<close>

theorem IsTrackpadScroll_false:
  "last (fst (run env (cs @ [(IsTrackpadScroll_cb, this, args)]))) = Inr (JsBoolean False)
   \<and> fst (IsTrackpadScroll \<lparr>Env = snd (run env cs), This = this, Args = args\<rparr>)
       = Inr (JsBoolean False)"
  by (simp add: run_then_call IsTrackpadScroll_def Boolean_New_def)

subsection \<open>Starting and stopping\<close>

text \<open>
  C3. \<^verbatim>\<open>startMonitoring\<close> returns the boolean \<^verbatim>\<open>false\<close>, alone and after any sequence of
  calls, and leaves the environment as it was. A later \<^verbatim>\<open>isMonitoring\<close> call returns the
  same value, \<^verbatim>\<open>false\<close>, whether or not the \<^verbatim>\<open>startMonitoring\<close> call was made: the sequence
  \<open>pre\<close>, \<^verbatim>\<open>startMonitoring\<close>, \<open>post\<close>, \<^verbatim>\<open>isMonitoring\<close> ends with the result that \<open>pre\<close>,
  \<open>post\<close>, \<^verbatim>\<open>isMonitoring\<close> ends with.
\<close>

theorem StartMonitoring_false_and_frame:
  "StartMonitoring info = (Inr (JsBoolean False), Env info)
   \<and> last (fst (run env (pre @ [(StartMonitoring_cb, this, args)]))) = Inr (JsBoolean False)
   \<and> last (fst (run env (pre @ [(StartMonitoring_cb, this, args)] @ post
                            @ [(IsMonitoring_cb, this', args')])))
       = last (fst (run env (pre @ post @ [(IsMonitoring_cb, this', args')])))
   \<and> last (fst (run env (pre @ [(StartMonitoring_cb, this, args)] @ post
                            @ [(IsMonitoring_cb, this', args')])))
       = Inr (JsBoolean False)"
proof -
  have with_start:
    "last (fst (run env ((pre @ [(StartMonitoring_cb, this, args)] @ post)
                           @ [(IsMonitoring_cb, this', args')]))) = Inr (JsBoolean False)"
    by (simp only: run_then_call) (simp add: cb_defs)
  have without_start:
    "last (fst (run env ((pre @ post) @ [(IsMonitoring_cb, this', args')])))
       = Inr (JsBoolean False)"
    by (simp only: run_then_call) (simp add: cb_defs)
  have start:
    "last (fst (run env (pre @ [(StartMonitoring_cb, this, args)]))) = Inr (JsBoolean False)"
    by (simp only: run_then_call) (simp add: cb_defs)
  show ?thesis
    using with_start without_start start by (simp add: cb_defs)
qed

text \<open>
  C4. \<^verbatim>\<open>stopMonitoring\<close> returns \<^verbatim>\<open>undefined\<close>, never an exception, for every receiver and
  argument list and after every sequence of calls; in particular as the only call made, with
  no \<^verbatim>\<open>startMonitoring\<close> before it and no argument.
\<close>

theorem StopMonitoring_undefined:
  "StopMonitoring info = (Inr JsUndefined, Env info)
   \<and> last (fst (run env (cs @ [(StopMonitoring_cb, this, args)]))) = Inr JsUndefined
   \<and> run env [(StopMonitoring_cb, this, [])] = ([Inr JsUndefined], env)"
  by (simp add: run_then_call cb_defs)

subsection \<open>All four operations\<close>

text \<open>
  C6. No operation can fail. After any sequence of calls and for any receiver and argument
  list, each of the four operations returns its fixed value (\<^verbatim>\<open>false\<close>, \<^verbatim>\<open>undefined\<close>,
  \<^verbatim>\<open>false\<close>, \<^verbatim>\<open>false\<close>) and not an exception; a sequence of calls yields one result per
  call, and no result in it is an exception.
\<close>

theorem operations_never_fail:
  "invoke StartMonitoring_cb \<lparr>Env = snd (run env cs), This = this, Args = args\<rparr>
     = (Inr (JsBoolean False), env)
   \<and> invoke StopMonitoring_cb \<lparr>Env = snd (run env cs), This = this, Args = args\<rparr>
     = (Inr JsUndefined, env)
   \<and> invoke IsTrackpadScroll_cb \<lparr>Env = snd (run env cs), This = this, Args = args\<rparr>
     = (Inr (JsBoolean False), env)
   \<and> invoke IsMonitoring_cb \<lparr>Env = snd (run env cs), This = this, Args = args\<rparr>
     = (Inr (JsBoolean False), env)
   \<and> (\<exists>v. invoke cb info = (Inr v, Env info))
   \<and> length (fst (run env cs)) = length cs
   \<and> Inl e \<notin> set (fst (run env cs))"
proof -
  have "Inl e \<notin> set (fst (run env cs))"
    by (auto simp: run_results invoke_value split: if_splits)
  moreover have "\<exists>v. invoke cb info = (Inr v, Env info)"
    by (simp add: invoke_value)
  ultimately show ?thesis
    by (simp add: run_env run_length cb_defs)
qed

text \<open>
  C7. No call has an effect another call can observe. A sequence of calls, in any order and
  of any length, leaves the environment as it was; its results are \<^verbatim>\<open>undefined\<close> for each
  \<^verbatim>\<open>stopMonitoring\<close> call and \<^verbatim>\<open>false\<close> for each call of a boolean-returning operation; the
  results of the calls \<open>ds\<close> are the same after the calls \<open>cs\<close> as without them; and a call
  made after \<open>cs\<close> returns what it returns when made first.
\<close>

theorem calls_do_not_interfere:
  "snd (run env cs) = env
   \<and> fst (run env cs) =
       map (\<lambda>(cb, this, args).
              if cb = StopMonitoring_cb then Inr JsUndefined else Inr (JsBoolean False)) cs
   \<and> fst (run env (cs @ ds)) = fst (run env cs) @ fst (run env ds)
   \<and> fst (invoke cb \<lparr>Env = snd (run env cs), This = this, Args = args\<rparr>)
       = fst (invoke cb \<lparr>Env = env, This = this, Args = args\<rparr>)"
  by (simp add: run_env run_append run_results invoke_value)

text \<open>
  C8. Every operation is stateless and idempotent. Calling an operation twice in succession
  yields twice the result of calling it once and the environment the single call leaves;
  calling it again in the environment it left returns what the first call returned; and any
  two calls of one operation, whatever their environment, receiver and arguments, return the
  same value.
\<close>

theorem operations_idempotent:
  "run env [(cb, this, args), (cb, this, args)] =
     ([fst (invoke cb \<lparr>Env = env, This = this, Args = args\<rparr>),
       fst (invoke cb \<lparr>Env = env, This = this, Args = args\<rparr>)],
      snd (invoke cb \<lparr>Env = env, This = this, Args = args\<rparr>))
   \<and> invoke cb (info\<lparr>Env := snd (invoke cb info)\<rparr>) = invoke cb info
   \<and> fst (invoke cb info) = fst (invoke cb info')"
  by (simp add: invoke_value split_beta)

text \<open>
  C9. The result of each of the four callbacks does not depend on its arguments: run on two
  call infos that differ only in the argument list, a callback returns the same value and
  leaves the same environment; in particular what it returns for the empty argument list.
\<close>

theorem results_independent_of_arguments:
  "StartMonitoring (info\<lparr>Args := args\<rparr>) = StartMonitoring (info\<lparr>Args := args'\<rparr>)
   \<and> StopMonitoring (info\<lparr>Args := args\<rparr>) = StopMonitoring (info\<lparr>Args := args'\<rparr>)
   \<and> IsTrackpadScroll (info\<lparr>Args := args\<rparr>) = IsTrackpadScroll (info\<lparr>Args := args'\<rparr>)
   \<and> IsMonitoring (info\<lparr>Args := args\<rparr>) = IsMonitoring (info\<lparr>Args := args'\<rparr>)
   \<and> StartMonitoring (info\<lparr>Args := args\<rparr>) = StartMonitoring (info\<lparr>Args := []\<rparr>)
   \<and> StopMonitoring (info\<lparr>Args := args\<rparr>) = StopMonitoring (info\<lparr>Args := []\<rparr>)
   \<and> IsTrackpadScroll (info\<lparr>Args := args\<rparr>) = IsTrackpadScroll (info\<lparr>Args := []\<rparr>)
   \<and> IsMonitoring (info\<lparr>Args := args\<rparr>) = IsMonitoring (info\<lparr>Args := []\<rparr>)"
  by (simp add: cb_defs)

subsection \<open>Resolving a name does not depend on what an assignment to another name changes\<close>

lemma lookup_more_fuel:
  "lookup n env p key \<noteq> Unresolved \<Longrightarrow> n \<le> m \<Longrightarrow> lookup m env p key = lookup n env p key"
proof (induction n arbitrary: p m)
  case 0
  then show ?case by (cases p) simp_all
next
  case (Suc n)
  show ?case
  proof (cases p)
    case None
    then show ?thesis by simp
  next
    case (Some a)
    from Suc.prems(2) obtain m' where m: "m = Suc m'" and le: "n \<le> m'"
      by (cases m) simp_all
    show ?thesis
      using Suc.prems(1) Suc.IH [OF _ le]
      by (simp add: Some m split: object_kind.splits option.splits if_splits)
  qed
qed

lemma lookup_frame:
  assumes "length env \<le> length env'"
    and "\<And>a. a < length env \<Longrightarrow>
           kind (env' ! a) = kind (env ! a) \<and> prototype (env' ! a) = prototype (env ! a)
           \<and> properties (env' ! a) key = properties (env ! a) key"
    and "lookup n env p key \<noteq> Unresolved"
  shows "lookup n env' p key = lookup n env p key"
  using assms(3)
proof (induction n arbitrary: p)
  case 0
  then show ?case by (cases p) simp_all
next
  case (Suc n)
  show ?case
  proof (cases p)
    case None
    then show ?thesis by simp
  next
    case (Some a)
    with Suc.prems have a: "a < length env"
      by (simp split: if_splits)
    then have a': "a < length env'"
      using assms(1) by simp
    show ?thesis
      using Suc.prems Suc.IH assms(2) [OF a] a a'
      by (simp add: Some split: object_kind.splits option.splits)
  qed
qed

lemma assignable_resolved:
  "assignable env obj key \<Longrightarrow> lookup (length env) env (Some obj) key \<noteq> Unresolved"
  by (auto simp: assignable_def)

lemma write_slot_length: "length (write_slot env obj key v) = length env"
  by (simp add: write_slot_def)

lemma write_slot_nth:
  "a < length env \<Longrightarrow>
     write_slot env obj key v ! a =
       (if a = obj
        then (env ! a)\<lparr>properties := (properties (env ! a))(key \<mapsto> DataProperty v True)\<rparr>
        else env ! a)"
  by (auto simp: write_slot_def)

lemma write_slot_append:
  "obj < length env \<Longrightarrow> write_slot (env @ xs) obj key v = write_slot env obj key v @ xs"
  by (simp add: write_slot_def list_update_append nth_append)

lemma assignable_append:
  assumes "assignable env obj key"
  shows "assignable (env @ xs) obj key"
proof -
  from assms have obj: "obj < length env"
    by (simp add: assignable_def)
  have res: "lookup (length env) env (Some obj) key \<noteq> Unresolved"
    using assms by (rule assignable_resolved)
  have fuel: "lookup (length (env @ xs)) env (Some obj) key = lookup (length env) env (Some obj) key"
    using res by (rule lookup_more_fuel) simp
  have "lookup (length (env @ xs)) (env @ xs) (Some obj) key
      = lookup (length (env @ xs)) env (Some obj) key"
  proof (rule lookup_frame)
    show "length env \<le> length (env @ xs)"
      by simp
    show "lookup (length (env @ xs)) env (Some obj) key \<noteq> Unresolved"
      using fuel res by simp
  qed (simp add: nth_append)
  with fuel show ?thesis
    using assms obj
    by (simp add: assignable_def nth_append split: resolution.splits property.splits)
qed

lemma assignable_write_other:
  assumes "assignable env obj key'" and "key \<noteq> key'"
  shows "assignable (write_slot env obj key v) obj key'"
proof -
  from assms have obj: "obj < length env"
    by (simp add: assignable_def)
  have res: "lookup (length env) env (Some obj) key' \<noteq> Unresolved"
    using assms(1) by (rule assignable_resolved)
  have "lookup (length env) (write_slot env obj key v) (Some obj) key'
      = lookup (length env) env (Some obj) key'"
  proof (rule lookup_frame)
    show "length env \<le> length (write_slot env obj key v)"
      by (simp add: write_slot_length)
    show "lookup (length env) env (Some obj) key' \<noteq> Unresolved"
      by (rule res)
  qed (use assms(2) in \<open>auto simp: write_slot_nth\<close>)
  then show ?thesis
    using assms obj
    by (simp add: assignable_def write_slot_length write_slot_nth
        split: resolution.splits property.splits)
qed

lemma Object_Set_assignable:
  "assignable env obj key \<Longrightarrow> Object_Set script obj key v env = (Inr (), write_slot env obj key v)"
  by (auto simp: assignable_def Object_Set_def split: resolution.splits property.splits)

text \<open>Two common cases of an assignment that takes effect.\<close>

lemma assignable_own:
  assumes "obj < length env" and "kind (env ! obj) = Ordinary"
    and "properties (env ! obj) key = Some (DataProperty old True)"
  shows "assignable env obj key"
proof -
  from assms(1) obtain n where "length env = Suc n"
    by (cases "length env") simp_all
  with assms show ?thesis
    by (simp add: assignable_def)
qed

lemma assignable_plain:
  assumes "obj < length env" and "kind (env ! obj) = Ordinary"
    and "properties (env ! obj) key = None" and "prototype (env ! obj) = None"
    and "extensible (env ! obj)"
  shows "assignable env obj key"
proof -
  from assms(1) obtain n where "length env = Suc n"
    by (cases "length env") simp_all
  with assms show ?thesis
    by (simp add: assignable_def)
qed

subsection \<open>Module initialisation\<close>

text \<open>
  One statement of \<^verbatim>\<open>Init\<close> whose assignment takes effect: the function object is allocated
  at the end of the heap and the property references it.
\<close>

lemma export_statement:
  assumes "assignable env obj key"
  shows "(let (f, env') = Function_New env cb in Object_Set script obj key (JsObject f) env')
     = (Inr (), write_slot env obj key (JsObject (length env))
                @ [\<lparr>properties = Map.empty, extensible = True, prototype = None,
                     kind = Ordinary, callable = Some (Native cb)\<rparr>])"
proof -
  from assms have obj: "obj < length env"
    by (simp add: assignable_def)
  show ?thesis
    using assignable_append [OF assms] obj
    by (simp add: Function_New_def Object_Set_assignable write_slot_append)
qed

lemma assignable_after_statement:
  assumes "assignable env obj key'" and "key \<noteq> key'"
  shows "assignable (write_slot env obj key v @ xs) obj key'"
  using assms by (intro assignable_append assignable_write_other)

text \<open>
  What \<^verbatim>\<open>Init\<close> leaves behind when all four assignments take effect: the four function
  objects at the end of the heap, in the order of the statements, and the four properties of
  the exports object referencing them.
\<close>

lemma Init_eq:
  assumes "assignable env exports ''startMonitoring''"
    and "assignable env exports ''stopMonitoring''"
    and "assignable env exports ''isTrackpadScroll''"
    and "assignable env exports ''isMonitoring''"
  shows "Init script env exports =
    (Inr exports,
     env[exports := (env ! exports)\<lparr>properties :=
        (properties (env ! exports))
          (''startMonitoring'' \<mapsto> DataProperty (JsObject (length env)) True,
           ''stopMonitoring'' \<mapsto> DataProperty (JsObject (Suc (length env))) True,
           ''isTrackpadScroll'' \<mapsto> DataProperty (JsObject (Suc (Suc (length env)))) True,
           ''isMonitoring'' \<mapsto> DataProperty (JsObject (Suc (Suc (Suc (length env))))) True)\<rparr>]
     @ [\<lparr>properties = Map.empty, extensible = True, prototype = None, kind = Ordinary,
          callable = Some (Native StartMonitoring_cb)\<rparr>,
        \<lparr>properties = Map.empty, extensible = True, prototype = None, kind = Ordinary,
          callable = Some (Native StopMonitoring_cb)\<rparr>,
        \<lparr>properties = Map.empty, extensible = True, prototype = None, kind = Ordinary,
          callable = Some (Native IsTrackpadScroll_cb)\<rparr>,
        \<lparr>properties = Map.empty, extensible = True, prototype = None, kind = Ordinary,
          callable = Some (Native IsMonitoring_cb)\<rparr>])"
proof -
  from assms(1) have obj: "exports < length env"
    by (simp add: assignable_def)
  let ?f = "\<lambda>cb. \<lparr>properties = Map.empty, extensible = True, prototype = None, kind = Ordinary,
          callable = Some (Native cb)\<rparr>"
  let ?e1 = "write_slot env exports ''startMonitoring'' (JsObject (length env))
               @ [?f StartMonitoring_cb]"
  let ?e2 = "write_slot ?e1 exports ''stopMonitoring'' (JsObject (length ?e1))
               @ [?f StopMonitoring_cb]"
  let ?e3 = "write_slot ?e2 exports ''isTrackpadScroll'' (JsObject (length ?e2))
               @ [?f IsTrackpadScroll_cb]"
  let ?e4 = "write_slot ?e3 exports ''isMonitoring'' (JsObject (length ?e3))
               @ [?f IsMonitoring_cb]"
  have a2: "assignable ?e1 exports ''stopMonitoring''"
    using assms(2) by (rule assignable_after_statement) simp
  have a3: "assignable ?e2 exports ''isTrackpadScroll''"
    by (rule assignable_after_statement, rule assignable_after_statement, rule assms(3)) simp_all
  have a4: "assignable ?e3 exports ''isMonitoring''"
    by (rule assignable_after_statement, rule assignable_after_statement,
        rule assignable_after_statement, rule assms(4)) simp_all
  have s1: "(let (f, env') = Function_New env StartMonitoring_cb
             in Object_Set script exports ''startMonitoring'' (JsObject f) env') = (Inr (), ?e1)"
    using assms(1) by (rule export_statement)
  have s2: "(let (f, env') = Function_New ?e1 StopMonitoring_cb
             in Object_Set script exports ''stopMonitoring'' (JsObject f) env') = (Inr (), ?e2)"
    using a2 by (rule export_statement)
  have s3: "(let (f, env') = Function_New ?e2 IsTrackpadScroll_cb
             in Object_Set script exports ''isTrackpadScroll'' (JsObject f) env') = (Inr (), ?e3)"
    using a3 by (rule export_statement)
  have s4: "(let (f, env') = Function_New ?e3 IsMonitoring_cb
             in Object_Set script exports ''isMonitoring'' (JsObject f) env') = (Inr (), ?e4)"
    using a4 by (rule export_statement)
  have "Init script env exports = (Inr exports, ?e4)"
    unfolding Init_def by (simp only: s1 s2 s3 s4 and_then_def prod.case sum.case)
  also have "?e4 = env[exports := (env ! exports)\<lparr>properties :=
        (properties (env ! exports))
          (''startMonitoring'' \<mapsto> DataProperty (JsObject (length env)) True,
           ''stopMonitoring'' \<mapsto> DataProperty (JsObject (Suc (length env))) True,
           ''isTrackpadScroll'' \<mapsto> DataProperty (JsObject (Suc (Suc (length env)))) True,
           ''isMonitoring'' \<mapsto> DataProperty (JsObject (Suc (Suc (Suc (length env))))) True)\<rparr>]
     @ [?f StartMonitoring_cb, ?f StopMonitoring_cb, ?f IsTrackpadScroll_cb, ?f IsMonitoring_cb]"
    using obj by (simp add: write_slot_def list_update_append nth_append)
  finally show ?thesis .
qed


lemma assignable_new:
  "assignable
     (env @ [\<lparr>properties = Map.empty, extensible = True, prototype = None, kind = Ordinary,
               callable = None\<rparr>]) (length env) key"
  by (simp add: assignable_def)

lemma trackpad_detect_eq:
  "trackpad_detect script env =
    (Inr (length env),
     env @ [\<lparr>properties =
               [''startMonitoring'' \<mapsto> DataProperty (JsObject (Suc (length env))) True,
                ''stopMonitoring'' \<mapsto> DataProperty (JsObject (Suc (Suc (length env)))) True,
                ''isTrackpadScroll'' \<mapsto>
                  DataProperty (JsObject (Suc (Suc (Suc (length env))))) True,
                ''isMonitoring'' \<mapsto>
                  DataProperty (JsObject (Suc (Suc (Suc (Suc (length env)))))) True],
             extensible = True, prototype = None, kind = Ordinary, callable = None\<rparr>,
            \<lparr>properties = Map.empty, extensible = True, prototype = None, kind = Ordinary,
              callable = Some (Native StartMonitoring_cb)\<rparr>,
            \<lparr>properties = Map.empty, extensible = True, prototype = None, kind = Ordinary,
              callable = Some (Native StopMonitoring_cb)\<rparr>,
            \<lparr>properties = Map.empty, extensible = True, prototype = None, kind = Ordinary,
              callable = Some (Native IsTrackpadScroll_cb)\<rparr>,
            \<lparr>properties = Map.empty, extensible = True, prototype = None, kind = Ordinary,
              callable = Some (Native IsMonitoring_cb)\<rparr>])"
  by (simp add: trackpad_detect_def Object_New_def Init_eq [OF assignable_new assignable_new
        assignable_new assignable_new])

text \<open>
  C5. Loaded into any environment, the module exports an object whose properties are exactly
  \<^verbatim>\<open>startMonitoring\<close>, \<^verbatim>\<open>stopMonitoring\<close>, \<^verbatim>\<open>isTrackpadScroll\<close> and \<^verbatim>\<open>isMonitoring\<close>, each
  bound to a function object that runs the callback of that name. Called by the host through
  that name with any argument list, \<^verbatim>\<open>startMonitoring\<close>, \<^verbatim>\<open>isTrackpadScroll\<close> and
  \<^verbatim>\<open>isMonitoring\<close> return a value of type boolean and \<^verbatim>\<open>stopMonitoring\<close> returns
  \<^verbatim>\<open>undefined\<close> (void); no call changes the environment. This holds whatever the host's own
  code does, since none of it runs.
\<close>

theorem trackpad_detect_interface:
  "\<exists>exports env'.
     trackpad_detect script env = (Inr exports, env')
     \<and> exports < length env'
     \<and> dom (properties (env' ! exports)) =
         {''startMonitoring'', ''stopMonitoring'', ''isTrackpadScroll'', ''isMonitoring''}
     \<and> bound_callback env' exports ''startMonitoring'' = Some StartMonitoring_cb
     \<and> bound_callback env' exports ''stopMonitoring'' = Some StopMonitoring_cb
     \<and> bound_callback env' exports ''isTrackpadScroll'' = Some IsTrackpadScroll_cb
     \<and> bound_callback env' exports ''isMonitoring'' = Some IsMonitoring_cb
     \<and> (\<forall>args. \<exists>v. call_export script env' exports ''startMonitoring'' args = (Inr v, env')
                   \<and> napi_typeof env' v = napi_boolean)
     \<and> (\<forall>args. \<exists>v. call_export script env' exports ''stopMonitoring'' args = (Inr v, env')
                   \<and> napi_typeof env' v = napi_undefined)
     \<and> (\<forall>args. \<exists>v. call_export script env' exports ''isTrackpadScroll'' args = (Inr v, env')
                   \<and> napi_typeof env' v = napi_boolean)
     \<and> (\<forall>args. \<exists>v. call_export script env' exports ''isMonitoring'' args = (Inr v, env')
                   \<and> napi_typeof env' v = napi_boolean)"
  apply (simp add: trackpad_detect_eq)
  apply (intro conjI)
  apply (auto simp: bound_callback_def Object_Get_def call_export_def Function_Call_def
      nth_append cb_defs)
  done

subsection \<open>\<^verbatim>\<open>Init\<close> on an exports object of the host's choosing\<close>

lemmas Init_unfold =
  Init_def and_then_def Function_New_def Object_Set_def write_slot_def completion_def
  Function_Call_def


text \<open>
  A read-only property of one of the four names keeps its value, while the other names are
  bound.
\<close>

lemma Init_read_only_kept:
  "fst (Init idle read_only_exports 0) = Inr 0
   \<and> properties (snd (Init idle read_only_exports 0) ! 0) ''isMonitoring''
       = Some (DataProperty (JsBoolean True) False)
   \<and> bound_callback (snd (Init idle read_only_exports 0)) 0 ''startMonitoring''
       = Some StartMonitoring_cb"
  by (simp add: Init_unfold read_only_exports_def bound_callback_def)

text \<open>
  A setter that throws ends \<^verbatim>\<open>Init\<close> with its exception: the statement before it has taken
  effect, the statements after it have not run.
\<close>

lemma Init_setter_throws:
  "fst (Init throwing setter_exports 0) = Inl (thrown JsNull)
   \<and> bound_callback (snd (Init throwing setter_exports 0)) 0 ''startMonitoring''
       = Some StartMonitoring_cb
   \<and> properties (snd (Init throwing setter_exports 0) ! 0) ''isTrackpadScroll'' = None
   \<and> properties (snd (Init throwing setter_exports 0) ! 0) ''isMonitoring'' = None"
  by (simp add: Init_unfold setter_exports_def bound_callback_def throwing_def)





end
